theory Spec2Isabelle
  imports Main "HOL-Library.AList"
begin

unbundle bit_operations_syntax

section \<open>JavaScript values\<close>

text \<open>
  The context documents and everything stored in the provenance state are plain data:
  what \<^verbatim>\<open>JSON.parse\<close> returns, or an object literal built by the inference routines,
  whose properties may hold \<^verbatim>\<open>undefined\<close>. An object is the list of its own properties in
  insertion order (the key order \<^verbatim>\<open>Object.keys\<close> and \<^verbatim>\<open>JSON.stringify\<close> follow for keys
  that are not array indices); numbers are the integers.
\<close>

datatype js = JUndefined | JNull | JBool bool | JNum int | JStr string
  | JArr "js list" | JObj "(string \<times> js) list"

datatype error = TypeError | RangeError | SyntaxError | ENOENT | WriteFailed | InferenceFailed
  | Unsupported

text \<open>\<^verbatim>\<open>!x\<close>: the falsy values among the modelled ones.\<close>

definition falsy :: "js \<Rightarrow> bool" where
  "falsy v = (v = JUndefined \<or> v = JNull \<or> v = JBool False \<or> v = JNum 0 \<or> v = JStr [])"

subsection \<open>\<^verbatim>\<open>JSON.stringify\<close>\<close>

fun show_nat :: "nat \<Rightarrow> string" where
  "show_nat n =
     (if n < 10 then [char_of (48 + n)] else show_nat (n div 10) @ [char_of (48 + n mod 10)])"

declare show_nat.simps [simp del]

definition show_int :: "int \<Rightarrow> string" where
  "show_int i = (if i < 0 then CHR ''-'' # show_nat (nat (- i)) else show_nat (nat i))"

fun join :: "string \<Rightarrow> string list \<Rightarrow> string" where
  "join sep [] = []"
| "join sep [x] = x"
| "join sep (x # y # ys) = x @ sep @ join sep (y # ys)"

definition hex_digit :: "int \<Rightarrow> char" where
  "hex_digit n = (if n < 10 then char_of (48 + n) else char_of (87 + n))"

text \<open>
  The escapes of \<^verbatim>\<open>QuoteJSONString\<close>: the quote, the backslash, the five short escapes and
  \<^verbatim>\<open>\u00XX\<close> for the other control characters. A string is its UTF-8 bytes, and bytes
  above \<^verbatim>\<open>0x7F\<close> pass through unchanged.
\<close>

definition escape_char :: "char \<Rightarrow> string" where
  "escape_char c =
    (if c = CHR 0x22 then [CHR 0x5C, CHR 0x22]
     else if c = CHR 0x5C then [CHR 0x5C, CHR 0x5C]
     else if c = CHR 0x08 then [CHR 0x5C, CHR ''b'']
     else if c = CHR 0x0C then [CHR 0x5C, CHR ''f'']
     else if c = CHR 0x0A then [CHR 0x5C, CHR ''n'']
     else if c = CHR 0x0D then [CHR 0x5C, CHR ''r'']
     else if c = CHR 0x09 then [CHR 0x5C, CHR ''t'']
     else if (of_char c :: int) < 32
       then [CHR 0x5C, CHR ''u'', CHR ''0'', CHR ''0'',
             hex_digit (of_char c div 16), hex_digit (of_char c mod 16)]
     else [c])"

definition quote :: "string \<Rightarrow> string" where
  "quote s = CHR 0x22 # concat (map escape_char s) @ [CHR 0x22]"

text \<open>
  \<open>ser\<close> is \<^verbatim>\<open>SerializeJSONProperty\<close> without indentation: a property holding
  \<^verbatim>\<open>undefined\<close> is left out of an object, and \<^verbatim>\<open>undefined\<close> in an array prints as
  \<^verbatim>\<open>null\<close>. \<open>stringify\<close> is \<^verbatim>\<open>JSON.stringify(value)\<close>, whose result for \<^verbatim>\<open>undefined\<close>
  is \<^verbatim>\<open>undefined\<close> (\<open>None\<close>).
\<close>

fun ser :: "js \<Rightarrow> string" where
  "ser JUndefined = ''null''"
| "ser JNull = ''null''"
| "ser (JBool b) = (if b then ''true'' else ''false'')"
| "ser (JNum i) = show_int i"
| "ser (JStr s) = quote s"
| "ser (JArr xs) = ''['' @ join '','' (map ser xs) @ '']''"
| "ser (JObj kvs) =
     ''{'' @ join '','' (map (\<lambda>(k, v). quote k @ '':'' @ ser v)
                          (filter (\<lambda>(k, v). v \<noteq> JUndefined) kvs)) @ ''}''"

definition stringify :: "js \<Rightarrow> string option" where
  "stringify v = (if v = JUndefined then None else Some (ser v))"

section \<open>SHA-256\<close>

text \<open>
  \<^verbatim>\<open>createHash('sha256')\<close> of Node's \<^verbatim>\<open>crypto\<close> module, as FIPS 180-4 defines it, on the
  bytes of the string; \<open>sha256_hex\<close> is \<^verbatim>\<open>.digest('hex')\<close>. The round constants
  and the initial hash value are written in decimal.
\<close>

text \<open>32-bit words are the integers from 0 to \<open>2 ^ 32 - 1\<close>; sums are reduced modulo \<open>2 ^ 32\<close>.\<close>

definition add32 :: "int \<Rightarrow> int \<Rightarrow> int" where
  "add32 x y = (x + y) mod 4294967296"

definition shr :: "nat \<Rightarrow> int \<Rightarrow> int" where
  "shr n x = x div 2 ^ n"

definition rotr :: "nat \<Rightarrow> int \<Rightarrow> int" where
  "rotr n x = x div 2 ^ n + (x mod 2 ^ n) * 2 ^ (32 - n)"

definition not32 :: "int \<Rightarrow> int" where
  "not32 x = 4294967295 - x"

definition ch :: "int \<Rightarrow> int \<Rightarrow> int \<Rightarrow> int" where
  "ch x y z = (x AND y) XOR (not32 x AND z)"

definition maj :: "int \<Rightarrow> int \<Rightarrow> int \<Rightarrow> int" where
  "maj x y z = (x AND y) XOR (x AND z) XOR (y AND z)"

definition bsig0 :: "int \<Rightarrow> int" where
  "bsig0 x = rotr 2 x XOR rotr 13 x XOR rotr 22 x"

definition bsig1 :: "int \<Rightarrow> int" where
  "bsig1 x = rotr 6 x XOR rotr 11 x XOR rotr 25 x"

definition ssig0 :: "int \<Rightarrow> int" where
  "ssig0 x = rotr 7 x XOR rotr 18 x XOR shr 3 x"

definition ssig1 :: "int \<Rightarrow> int" where
  "ssig1 x = rotr 17 x XOR rotr 19 x XOR shr 10 x"

definition sha_k :: "int list" where
  "sha_k = [
     1116352408, 1899447441, 3049323471, 3921009573, 961987163, 1508970993,
     2453635748, 2870763221, 3624381080, 310598401, 607225278, 1426881987,
     1925078388, 2162078206, 2614888103, 3248222580, 3835390401, 4022224774,
     264347078, 604807628, 770255983, 1249150122, 1555081692, 1996064986,
     2554220882, 2821834349, 2952996808, 3210313671, 3336571891, 3584528711,
     113926993, 338241895, 666307205, 773529912, 1294757372, 1396182291,
     1695183700, 1986661051, 2177026350, 2456956037, 2730485921, 2820302411,
     3259730800, 3345764771, 3516065817, 3600352804, 4094571909, 275423344,
     430227734, 506948616, 659060556, 883997877, 958139571, 1322822218,
     1537002063, 1747873779, 1955562222, 2024104815, 2227730452, 2361852424,
     2428436474, 2756734187, 3204031479, 3329325298]"

definition sha_h0 :: "int list" where
  "sha_h0 = [
     1779033703, 3144134277, 1013904242, 2773480762, 1359893119, 2600822924,
     528734635, 1541459225]"

definition pad_zeros :: "nat \<Rightarrow> nat" where
  "pad_zeros len = (119 - len mod 64) mod 64"

definition length_bytes :: "int \<Rightarrow> int list" where
  "length_bytes n = [n div 2 ^ 56 mod 256, n div 2 ^ 48 mod 256, n div 2 ^ 40 mod 256,
                     n div 2 ^ 32 mod 256, n div 2 ^ 24 mod 256, n div 2 ^ 16 mod 256,
                     n div 2 ^ 8 mod 256, n mod 256]"

definition sha_pad :: "int list \<Rightarrow> int list" where
  "sha_pad m = m @ [128] @ replicate (pad_zeros (length m)) 0 @ length_bytes (8 * int (length m))"

fun words_of :: "int list \<Rightarrow> int list" where
  "words_of (a # b # c # d # r) = (((a * 256 + b) * 256 + c) * 256 + d) # words_of r"
| "words_of _ = []"

fun chunks :: "nat \<Rightarrow> 'a list \<Rightarrow> 'a list list" where
  "chunks 0 xs = []"
| "chunks (Suc f) xs = (if xs = [] then [] else take 16 xs # chunks f (drop 16 xs))"

text \<open>The message schedule, newest word first while it is built.\<close>

definition schedule_step :: "int list \<Rightarrow> int list" where
  "schedule_step r =
     add32 (add32 (add32 (ssig1 (r ! 1)) (r ! 6)) (ssig0 (r ! 14))) (r ! 15) # r"

definition schedule :: "int list \<Rightarrow> int list" where
  "schedule blk = rev ((schedule_step ^^ 48) (rev blk))"

fun round :: "int list \<Rightarrow> int \<times> int \<Rightarrow> int list" where
  "round [a, b, c, d, e, f, g, h] (k, w) =
     (let t1 = add32 (add32 (add32 (add32 h (bsig1 e)) (ch e f g)) k) w;
          t2 = add32 (bsig0 a) (maj a b c)
      in [add32 t1 t2, a, b, c, add32 d t1, e, f, g])"
| "round s _ = s"

definition compress :: "int list \<Rightarrow> int list \<Rightarrow> int list" where
  "compress h blk = map2 add32 h (foldl round h (zip sha_k (schedule blk)))"

definition sha256 :: "int list \<Rightarrow> int list" where
  "sha256 m = foldl compress sha_h0 (chunks (length m + 72) (words_of (sha_pad m)))"

definition hex_word :: "int \<Rightarrow> string" where
  "hex_word w = map (\<lambda>n. hex_digit (w div 2 ^ n mod 16)) [28, 24, 20, 16, 12, 8, 4, 0]"

definition sha256_hex :: "string \<Rightarrow> string" where
  "sha256_hex s = concat (map hex_word (sha256 (map of_char s)))"

section \<open>The provenance state (\<^verbatim>\<open>schema/state.ts\<close>)\<close>

datatype provenance = Inferred | Manual | Merged

record FieldState =
  "value" :: js
  source :: provenance
  lastInferred :: "string option"
  lastModified :: "string option"
  inferredHash :: "string option"

text \<open>\<open>fieldMap\<close> is the \<^verbatim>\<open>fields\<close> property (the record package reserves that name): a
  JavaScript object keyed by field path, here an association list in insertion order, where
  an assignment to a key that exists replaces its value in place.\<close>

record FileState =
  "file" :: string
  lastUpdated :: string
  fieldMap :: "(string \<times> FieldState) list"

record PreludeState =
  version :: string
  initialized :: string
  lastUpdate :: string
  files :: "FileState list"

text \<open>
  The system clock: the reading that the \<open>n\<close>-th call of \<^verbatim>\<open>new Date().toISOString()\<close>
  returns, and the number of calls made so far. Nothing is assumed about the readings.
\<close>

record clock =
  readings :: "nat \<Rightarrow> string"
  reads :: nat

definition now :: "clock \<Rightarrow> string" where
  "now c = readings c (reads c)"

definition tick :: "clock \<Rightarrow> clock" where
  "tick c = c\<lparr>reads := Suc (reads c)\<rparr>"

definition createInitialState :: "clock \<Rightarrow> PreludeState \<times> clock" where
  "createInitialState c =
     (\<lparr>version = ''1.0.0'', initialized = now c, lastUpdate = now c, files = []\<rparr>, tick c)"

definition trackField :: "js \<Rightarrow> provenance \<Rightarrow> string option \<Rightarrow> clock \<Rightarrow> FieldState \<times> clock" where
  "trackField v src h c =
     (\<lparr>value = v, source = src,
       lastInferred = (if src = Inferred then Some (now c) else None),
       lastModified = (if src = Manual then Some (now c) else None),
       inferredHash = h\<rparr>, tick c)"

section \<open>The state manager (\<^verbatim>\<open>core/state-manager.ts\<close>)\<close>

record StateManager =
  state :: PreludeState
  contextDir :: string

text \<open>\<^verbatim>\<open>hash\<close>: the first 16 hexadecimal digits of the SHA-256 of \<^verbatim>\<open>JSON.stringify(value)\<close>.
  \<^verbatim>\<open>Hash.update(undefined)\<close> throws a \<^verbatim>\<open>TypeError\<close>.\<close>

definition hash :: "js \<Rightarrow> error + string" where
  "hash v = (case stringify v of None \<Rightarrow> Inl TypeError | Some s \<Rightarrow> Inr (take 16 (sha256_hex s)))"

definition getFileState :: "StateManager \<Rightarrow> string \<Rightarrow> FileState option" where
  "getFileState sm f = find (\<lambda>x. file x = f) (files (state sm))"

text \<open>The file states are objects held by reference: a write through the result of
  \<^verbatim>\<open>getFileState\<close> changes the first entry of that name in \<^verbatim>\<open>state.files\<close>.\<close>

fun modifyFirst :: "string \<Rightarrow> (FileState \<Rightarrow> FileState) \<Rightarrow> FileState list \<Rightarrow> FileState list" where
  "modifyFirst f g [] = []"
| "modifyFirst f g (x # xs) = (if file x = f then g x # xs else x # modifyFirst f g xs)"

definition modifyFileState :: "string \<Rightarrow> (FileState \<Rightarrow> FileState) \<Rightarrow> StateManager \<Rightarrow> StateManager" where
  "modifyFileState f g sm = sm\<lparr>state := (state sm)\<lparr>files := modifyFirst f g (files (state sm))\<rparr>\<rparr>"

definition getOrCreateFileState :: "string \<Rightarrow> StateManager \<times> clock \<Rightarrow> StateManager \<times> clock" where
  "getOrCreateFileState f = (\<lambda>(sm, c).
     (case getFileState sm f of
        Some x \<Rightarrow> (sm, c)
      | None \<Rightarrow>
          (sm\<lparr>state := (state sm)\<lparr>files := files (state sm)
                   @ [\<lparr>file = f, lastUpdated = now c, fieldMap = []\<rparr>]\<rparr>\<rparr>, tick c)))"

definition setField :: "string \<Rightarrow> string \<Rightarrow> FieldState \<Rightarrow> StateManager \<Rightarrow> StateManager" where
  "setField f p s = modifyFileState f (\<lambda>x. x\<lparr>fieldMap := AList.update p s (fieldMap x)\<rparr>)"

definition touch :: "string \<Rightarrow> StateManager \<times> clock \<Rightarrow> StateManager \<times> clock" where
  "touch f = (\<lambda>(sm, c). (modifyFileState f (\<lambda>x. x\<lparr>lastUpdated := now c\<rparr>) sm, tick c))"

definition trackInferred ::
  "string \<Rightarrow> string \<Rightarrow> js \<Rightarrow> StateManager \<times> clock \<Rightarrow> error + StateManager \<times> clock" where
  "trackInferred f p v smc =
     (let (sm1, c1) = getOrCreateFileState f smc in
      case hash v of
        Inl e \<Rightarrow> Inl e
      | Inr h \<Rightarrow>
          (let (s, c2) = trackField v Inferred (Some h) c1
           in Inr (touch f (setField f p s sm1, c2))))"

definition trackManual :: "string \<Rightarrow> string \<Rightarrow> js \<Rightarrow> StateManager \<times> clock \<Rightarrow> StateManager \<times> clock" where
  "trackManual f p v smc =
     (let (sm1, c1) = getOrCreateFileState f smc;
          (s, c2) = trackField v Manual None c1
      in touch f (setField f p s sm1, c2))"

definition getFieldState :: "StateManager \<Rightarrow> string \<Rightarrow> string \<Rightarrow> FieldState option" where
  "getFieldState sm f p =
     (case getFileState sm f of None \<Rightarrow> None | Some x \<Rightarrow> map_of (fieldMap x) p)"

definition isManuallyEdited :: "StateManager \<Rightarrow> string \<Rightarrow> string \<Rightarrow> bool" where
  "isManuallyEdited sm f p =
     (case getFileState sm f of
        None \<Rightarrow> False
      | Some x \<Rightarrow> (case map_of (fieldMap x) p of None \<Rightarrow> False | Some s \<Rightarrow> source s = Manual))"

definition hasInferredChanged :: "StateManager \<Rightarrow> string \<Rightarrow> string \<Rightarrow> js \<Rightarrow> error + bool" where
  "hasInferredChanged sm f p v =
     (case getFileState sm f of
        None \<Rightarrow> Inr True
      | Some x \<Rightarrow>
          (case map_of (fieldMap x) p of
             None \<Rightarrow> Inr True
           | Some s \<Rightarrow>
               (case hash v of Inl e \<Rightarrow> Inl e | Inr h \<Rightarrow> Inr (inferredHash s \<noteq> Some h))))"

definition getManualFields :: "StateManager \<Rightarrow> string \<Rightarrow> string list" where
  "getManualFields sm f =
     (case getFileState sm f of
        None \<Rightarrow> []
      | Some x \<Rightarrow> map fst (filter (\<lambda>(p, s). source s = Manual) (fieldMap x)))"

section \<open>Property access\<close>

text \<open>
  A key names an array element when it is the decimal numeral of a natural number
  (\<^verbatim>\<open>"0"\<close>, \<^verbatim>\<open>"17"\<close>; not \<^verbatim>\<open>"01"\<close>).
\<close>

definition parse_nat :: "string \<Rightarrow> nat" where
  "parse_nat k = foldl (\<lambda>n c. 10 * n + (of_char c - 48)) 0 k"

definition array_index :: "string \<Rightarrow> nat option" where
  "array_index k = (if show_nat (parse_nat k) = k then Some (parse_nat k) else None)"

definition lookup :: "(string \<times> js) list \<Rightarrow> string \<Rightarrow> js" where
  "lookup kvs k = (case map_of kvs k of None \<Rightarrow> JUndefined | Some v \<Rightarrow> v)"

text \<open>
  \<open>getProp\<close> is \<^verbatim>\<open>curr?.[key]\<close>: \<^verbatim>\<open>undefined\<close> on \<^verbatim>\<open>null\<close> and \<^verbatim>\<open>undefined\<close>, the own
  property of an object, the element or the length of an array. Members inherited from a
  prototype (methods such as \<^verbatim>\<open>toString\<close>) are not data and are not modelled: such a key reads
  as absent. Reading a character or the length of a string is outside the model
  (\<open>Unsupported\<close>); any other key of a string, a number or a boolean is absent.
\<close>

fun getProp :: "js \<Rightarrow> string \<Rightarrow> error + js" where
  "getProp (JObj kvs) k = Inr (lookup kvs k)"
| "getProp (JArr xs) k =
     (case array_index k of
        Some i \<Rightarrow> Inr (if i < length xs then xs ! i else JUndefined)
      | None \<Rightarrow> Inr (if k = ''length'' then JNum (int (length xs)) else JUndefined))"
| "getProp (JStr s) k =
     (if array_index k \<noteq> None \<or> k = ''length'' then Inl Unsupported else Inr JUndefined)"
| "getProp v k = Inr JUndefined"

text \<open>\<open>member\<close> is \<^verbatim>\<open>obj.name\<close> and \<^verbatim>\<open>obj[key]\<close> without the \<^verbatim>\<open>?.\<close>: it throws on \<^verbatim>\<open>null\<close>
  and \<^verbatim>\<open>undefined\<close>.\<close>

definition member :: "js \<Rightarrow> string \<Rightarrow> error + js" where
  "member v k = (if v = JUndefined \<or> v = JNull then Inl TypeError else getProp v k)"

text \<open>
  \<open>setProp\<close> is \<^verbatim>\<open>target[key] = value\<close> in strict mode (the sources are ES modules): a
  \<^verbatim>\<open>TypeError\<close> on a primitive, on \<^verbatim>\<open>null\<close> and on \<^verbatim>\<open>undefined\<close>. An array grows with
  holes, which read as \<^verbatim>\<open>undefined\<close>, when the index is past its end. A named property on
  an array, or a write to its length, leaves the JSON trees: \<open>Unsupported\<close>.
\<close>

fun setProp :: "js \<Rightarrow> string \<Rightarrow> js \<Rightarrow> error + js" where
  "setProp (JObj kvs) k v = Inr (JObj (AList.update k v kvs))"
| "setProp (JArr xs) k v =
     (case array_index k of
        Some i \<Rightarrow> Inr (JArr (if i < length xs then xs[i := v]
                              else xs @ replicate (i - length xs) JUndefined @ [v]))
      | None \<Rightarrow> Inl Unsupported)"
| "setProp t k v = Inl TypeError"

text \<open>\<^verbatim>\<open>path.split('.')\<close>.\<close>

fun split_dots :: "string \<Rightarrow> string list" where
  "split_dots [] = [[]]"
| "split_dots (c # cs) =
     (if c = CHR ''.'' then [] # split_dots cs
      else (case split_dots cs of [] \<Rightarrow> [[c]] | w # ws \<Rightarrow> (c # w) # ws))"

text \<open>\<^verbatim>\<open>getNestedValue\<close>: \<^verbatim>\<open>path.split('.').reduce((curr, key) => curr?.[key], obj)\<close>.\<close>

fun getPath :: "js \<Rightarrow> string list \<Rightarrow> error + js" where
  "getPath cur [] = Inr cur"
| "getPath cur (k # ks) = (case getProp cur k of Inl e \<Rightarrow> Inl e | Inr c \<Rightarrow> getPath c ks)"

definition getNestedValue :: "js \<Rightarrow> string \<Rightarrow> error + js" where
  "getNestedValue obj path = getPath obj (split_dots path)"

text \<open>
  \<^verbatim>\<open>setNestedValue\<close>: every key but the last is followed, an empty object being stored where
  the value is falsy, and the last key is assigned. The objects are mutated in place; in
  the tree each parent takes its changed child.
\<close>

fun setPath :: "js \<Rightarrow> string list \<Rightarrow> js \<Rightarrow> error + js" where
  "setPath cur [] v = Inr cur"
| "setPath cur [k] v = setProp cur k v"
| "setPath cur (k # k' # ks) v =
     (case getProp cur k of
        Inl e \<Rightarrow> Inl e
      | Inr child \<Rightarrow>
          (if falsy child
           then (case setProp cur k (JObj []) of
                   Inl e \<Rightarrow> Inl e
                 | Inr cur' \<Rightarrow>
                     (case setPath (JObj []) (k' # ks) v of
                        Inl e \<Rightarrow> Inl e
                      | Inr c \<Rightarrow> setProp cur' k c))
           else (case setPath child (k' # ks) v of
                   Inl e \<Rightarrow> Inl e
                 | Inr c \<Rightarrow> setProp cur k c)))"

definition setNestedValue :: "js \<Rightarrow> string \<Rightarrow> js \<Rightarrow> error + js" where
  "setNestedValue obj path v = setPath obj (split_dots path) v"

text \<open>\<^verbatim>\<open>{ ...x }\<close>: the own enumerable properties of \<open>x\<close>, none for \<^verbatim>\<open>null\<close>, \<^verbatim>\<open>undefined\<close>,
  numbers and booleans, the indexed elements of an array or a string.\<close>

definition indexed :: "js list \<Rightarrow> (string \<times> js) list" where
  "indexed xs = zip (map show_nat [0..<length xs]) xs"

fun spreadObject :: "js \<Rightarrow> (string \<times> js) list" where
  "spreadObject (JObj kvs) = kvs"
| "spreadObject (JArr xs) = indexed xs"
| "spreadObject (JStr s) = indexed (map (\<lambda>c. JStr [c]) s)"
| "spreadObject v = []"

text \<open>\<^verbatim>\<open>Object.keys(x)\<close> throws on \<^verbatim>\<open>null\<close> and \<^verbatim>\<open>undefined\<close>.\<close>

definition objectKeys :: "js \<Rightarrow> error + string list" where
  "objectKeys v =
     (if v = JUndefined \<or> v = JNull then Inl TypeError else Inr (map fst (spreadObject v)))"

text \<open>\<^verbatim>\<open>[...(x || [])]\<close>: nothing for a falsy \<open>x\<close>, the elements of an array, the characters of
  a string; any other value is not iterable.\<close>

definition spreadOrEmpty :: "js \<Rightarrow> error + js list" where
  "spreadOrEmpty v =
     (if falsy v then Inr []
      else (case v of
              JArr xs \<Rightarrow> Inr xs
            | JStr s \<Rightarrow> Inr (map (\<lambda>c. JStr [c]) s)
            | _ \<Rightarrow> Inl TypeError))"

text \<open>
  A \<^verbatim>\<open>Set\<close> compares with SameValueZero: primitives by value, objects and arrays by
  identity. Every array and object met in a document is an object of its own, so none
  equals another. A set is the list of its members in insertion order.
\<close>

definition sameValueZero :: "js \<Rightarrow> js \<Rightarrow> bool" where
  "sameValueZero a b = (case a of JArr xs \<Rightarrow> False | JObj kvs \<Rightarrow> False | _ \<Rightarrow> a = b)"

definition setHas :: "js list \<Rightarrow> js \<Rightarrow> bool" where
  "setHas s x = list_ex (sameValueZero x) s"

definition newSet :: "js list \<Rightarrow> js list" where
  "newSet xs = foldl (\<lambda>s x. if setHas s x then s else s @ [x]) [] xs"

text \<open>\<^verbatim>\<open>`${x}`\<close>: the string conversion of a template literal.\<close>

fun toStr :: "js \<Rightarrow> string" where
  "toStr JUndefined = ''undefined''"
| "toStr JNull = ''null''"
| "toStr (JBool b) = (if b then ''true'' else ''false'')"
| "toStr (JNum i) = show_int i"
| "toStr (JStr s) = s"
| "toStr (JArr xs) =
     join '','' (map (\<lambda>x. if x = JUndefined \<or> x = JNull then [] else toStr x) xs)"
| "toStr (JObj kvs) = ''[object Object]''"

section \<open>The merger (\<^verbatim>\<open>core/merger.ts\<close>)\<close>

datatype changeType = Added | Removed | Modified | Preserved

text \<open>\<open>oldValue\<close> and \<open>newValue\<close> are optional: \<open>JUndefined\<close> stands for a property that is absent
  or holds \<^verbatim>\<open>undefined\<close>.\<close>

record MergeChange =
  field :: string
  ctype :: changeType
  oldValue :: js
  newValue :: js
  reason :: string

definition sameJSON :: "js \<Rightarrow> js \<Rightarrow> bool" where
  "sameJSON a b = (stringify a = stringify b)"

record MergeResult =
  merged :: js
  changes :: "MergeChange list"

text \<open>Sequencing of steps that may throw, and a loop whose body may throw.\<close>

definition andThen :: "error + 'a \<Rightarrow> ('a \<Rightarrow> error + 'b) \<Rightarrow> error + 'b" where
  "andThen r k = (case r of Inl e \<Rightarrow> Inl e | Inr x \<Rightarrow> k x)"

fun foldE :: "('a \<Rightarrow> 's \<Rightarrow> error + 's) \<Rightarrow> 'a list \<Rightarrow> 's \<Rightarrow> error + 's" where
  "foldE f [] s = Inr s"
| "foldE f (x # xs) s = andThen (f x s) (foldE f xs)"

fun mapE :: "('a \<Rightarrow> error + 'b) \<Rightarrow> 'a list \<Rightarrow> error + 'b list" where
  "mapE f [] = Inr []"
| "mapE f (x # xs) = andThen (f x) (\<lambda>y. andThen (mapE f xs) (\<lambda>ys. Inr (y # ys)))"

fun filterE :: "('a \<Rightarrow> error + bool) \<Rightarrow> 'a list \<Rightarrow> error + 'a list" where
  "filterE f [] = Inr []"
| "filterE f (x # xs) =
     andThen (f x) (\<lambda>b. andThen (filterE f xs) (\<lambda>ys. Inr (if b then x # ys else ys)))"

subsection \<open>\<^verbatim>\<open>mergeProject\<close>\<close>

text \<open>
  \<open>merged\<close> starts as \<^verbatim>\<open>{ ...inferred }\<close>, a shallow copy: each of its properties holds
  the very object that the property of \<open>inferred\<close> holds, until the property of \<open>merged\<close> is
  assigned. \<^verbatim>\<open>setNestedValue(merged, path, value)\<close> with a path of several keys writes into
  the object held by the first key, so \<open>inferred\<close> changes with it while the two still
  share it. The loop state is \<open>merged\<close>, \<open>inferred\<close>, the keys of \<open>merged\<close> assigned so far
  (no longer shared) and the changes. The value written at a path is the value read at
  the same path of \<open>existing\<close>, so a write through an object taken from \<open>existing\<close> stores
  what is there already, and \<open>existing\<close> stays as it is.
\<close>

type_synonym mergeState = "js \<times> js \<times> string list \<times> MergeChange list"

definition writeThrough :: "js \<Rightarrow> js \<Rightarrow> string list \<Rightarrow> string \<Rightarrow> js \<Rightarrow> error + js \<times> js \<times> string list" where
  "writeThrough m infd own p v =
     andThen (setNestedValue m p v) (\<lambda>m'.
       let k = hd (split_dots p) in
       if length (split_dots p) = 1 \<or> falsy (lookup (spreadObject m) k)
         then Inr (m', infd, k # own)
       else if k \<in> set own then Inr (m', infd, own)
       else andThen (setProp infd k (lookup (spreadObject m') k)) (\<lambda>infd'. Inr (m', infd', own)))"

definition preserveManual :: "js \<Rightarrow> string \<Rightarrow> mergeState \<Rightarrow> error + mergeState" where
  "preserveManual existing p = (\<lambda>(m, infd, own, chs).
     andThen (getNestedValue existing p) (\<lambda>existingValue.
     andThen (getNestedValue infd p) (\<lambda>inferredValue.
       if existingValue \<noteq> JUndefined
       then andThen (writeThrough m infd own p existingValue) (\<lambda>(m', infd', own').
              Inr (m', infd', own',
                   if \<not> sameJSON existingValue inferredValue
                   then chs @ [\<lparr>field = p, ctype = Preserved, oldValue = inferredValue,
                                newValue = existingValue,
                                reason = ''Manually edited field preserved''\<rparr>]
                   else chs))
       else Inr (m, infd, own, chs))))"

definition preserveFields :: "string list" where
  "preserveFields = [''team'', ''goals'']"

definition preserveField :: "js \<Rightarrow> js \<Rightarrow> string \<Rightarrow> js \<times> MergeChange list \<Rightarrow> error + js \<times> MergeChange list" where
  "preserveField existing infd f = (\<lambda>(m, chs).
     andThen (member existing f) (\<lambda>existingValue.
     andThen (member infd f) (\<lambda>inferredValue.
       if existingValue \<noteq> JUndefined \<and> existingValue \<noteq> JNull
          \<and> \<not> sameJSON existingValue inferredValue
       then andThen (setProp m f existingValue) (\<lambda>m'.
              Inr (m', chs @ [\<lparr>field = f, ctype = Preserved, oldValue = JUndefined,
                               newValue = existingValue, reason = ''User-maintained field''\<rparr>]))
       else Inr (m, chs))))"

definition inferredChange :: "js \<Rightarrow> js \<Rightarrow> string list \<Rightarrow> string \<Rightarrow> MergeChange list \<Rightarrow> error + MergeChange list" where
  "inferredChange existing infd manualFields k chs =
     (if k \<in> set preserveFields \<or> k \<in> set manualFields then Inr chs
      else andThen (member existing k) (\<lambda>old.
           andThen (member infd k) (\<lambda>new.
             if \<not> sameJSON old new
             then (if old = JUndefined
                   then Inr (chs @ [\<lparr>field = k, ctype = Added, oldValue = JUndefined,
                                     newValue = new, reason = ''New inferred value''\<rparr>])
                   else Inr (chs @ [\<lparr>field = k, ctype = Modified, oldValue = old,
                                     newValue = new, reason = ''Codebase changed''\<rparr>]))
             else Inr chs)))"

text \<open>The result carries, besides \<^verbatim>\<open>{ merged, changes }\<close>, the \<open>inferred\<close> object as the call
  leaves it and the clock.\<close>

definition mergeProject :: "StateManager \<Rightarrow> js \<Rightarrow> js \<Rightarrow> clock \<Rightarrow> error + MergeResult \<times> js \<times> clock" where
  "mergeProject sm existing inferred c =
     (let manualFields = getManualFields sm ''project.json'' in
      andThen (foldE (preserveManual existing) manualFields
                 (JObj (spreadObject inferred), inferred, [], [])) (\<lambda>(m1, infd1, own, chs1).
      andThen (foldE (preserveField existing infd1) preserveFields (m1, chs1)) (\<lambda>(m2, chs2).
      andThen (objectKeys infd1) (\<lambda>ks.
      andThen (foldE (inferredChange existing infd1 manualFields) ks chs2) (\<lambda>chs3.
      andThen (setProp m2 ''updatedAt'' (JStr (now c))) (\<lambda>m3.
        Inr (\<lparr>merged = m3, changes = chs3\<rparr>, infd1, tick c)))))))"

subsection \<open>\<^verbatim>\<open>mergeStack\<close>\<close>

definition stackDeps :: "js \<Rightarrow> error + js list" where
  "stackDeps d =
     andThen (andThen (member d ''frameworks'') spreadOrEmpty) (\<lambda>a.
     andThen (andThen (member d ''buildTools'') spreadOrEmpty) (\<lambda>b.
     andThen (andThen (member d ''testingFrameworks'') spreadOrEmpty) (\<lambda>t.
     andThen (andThen (member d ''styling'') spreadOrEmpty) (\<lambda>s.
       Inr (newSet (a @ b @ t @ s))))))"

definition removedDep :: "js \<Rightarrow> MergeChange" where
  "removedDep dep = \<lparr>field = ''dependencies'', ctype = Removed, oldValue = dep,
                     newValue = JUndefined, reason = ''No longer detected in project''\<rparr>"

definition addedDep :: "js \<Rightarrow> MergeChange" where
  "addedDep dep = \<lparr>field = ''dependencies'', ctype = Added, oldValue = JUndefined,
                   newValue = dep, reason = ''New dependency detected''\<rparr>"

definition mergeStack :: "StateManager \<Rightarrow> js \<Rightarrow> js \<Rightarrow> error + MergeResult" where
  "mergeStack sm existing inferred =
     andThen (stackDeps existing) (\<lambda>existingDeps.
     andThen (stackDeps inferred) (\<lambda>inferredDeps.
       Inr \<lparr>merged = JObj (spreadObject inferred),
            changes = map removedDep (filter (\<lambda>dep. \<not> setHas inferredDeps dep) existingDeps)
                    @ map addedDep (filter (\<lambda>dep. \<not> setHas existingDeps dep) inferredDeps)\<rparr>))"

subsection \<open>\<^verbatim>\<open>mergeArchitecture\<close>\<close>

text \<open>\<^verbatim>\<open>dirs.map(d => d.path)\<close>: only an array has the method.\<close>

definition dirPaths :: "js \<Rightarrow> error + js list" where
  "dirPaths v = (case v of JArr xs \<Rightarrow> mapE (\<lambda>d. member d ''path'') xs | _ \<Rightarrow> Inl TypeError)"

definition removedDir :: "js \<Rightarrow> MergeChange" where
  "removedDir p = \<lparr>field = ''directories'', ctype = Removed, oldValue = p,
                   newValue = JUndefined, reason = ''Directory no longer exists''\<rparr>"

definition addedDir :: "js \<Rightarrow> MergeChange" where
  "addedDir p = \<lparr>field = ''directories'', ctype = Added, oldValue = JUndefined,
                 newValue = p, reason = ''New directory detected''\<rparr>"

definition mergeDirectories :: "js \<Rightarrow> js \<Rightarrow> error + MergeChange list" where
  "mergeDirectories existing inferred =
     andThen (member existing ''directories'') (\<lambda>edirs.
       if falsy edirs then Inr []
       else andThen (member inferred ''directories'') (\<lambda>idirs.
         if falsy idirs then Inr []
         else andThen (dirPaths edirs) (\<lambda>eps.
              andThen (dirPaths idirs) (\<lambda>ips.
                Inr (map removedDir (filter (\<lambda>p. \<not> setHas (newSet ips) p) eps)
                     @ map addedDir (filter (\<lambda>p. \<not> setHas (newSet eps) p) ips))))))"

definition mergeArchitecture :: "StateManager \<Rightarrow> js \<Rightarrow> js \<Rightarrow> error + MergeResult" where
  "mergeArchitecture sm existing inferred =
     (let m0 = JObj (spreadObject inferred);
          manualFields = getManualFields sm ''architecture.json'' in
      andThen (if ''patterns'' \<in> set manualFields
               then andThen (member existing ''patterns'') (\<lambda>ps.
                    andThen (setProp m0 ''patterns'' ps) (\<lambda>m1.
                      Inr (m1, [\<lparr>field = ''patterns'', ctype = Preserved, oldValue = JUndefined,
                                 newValue = ps, reason = ''Manually specified patterns''\<rparr>])))
               else Inr (m0, [])) (\<lambda>(m1, chs1).
      andThen (mergeDirectories existing inferred) (\<lambda>chs2.
        Inr \<lparr>merged = m1, changes = chs1 @ chs2\<rparr>)))"

subsection \<open>\<^verbatim>\<open>mergeConstraints\<close>\<close>

text \<open>\<^verbatim>\<open>x.length > 0\<close>. The comparison converts its operand to a number; the conversion of
  a string or an array found under a \<^verbatim>\<open>length\<close> key is outside the model.\<close>

definition lengthPositive :: "js \<Rightarrow> error + bool" where
  "lengthPositive v =
     (case v of
        JArr xs \<Rightarrow> Inr (0 < length xs)
      | JStr s \<Rightarrow> Inr (0 < length s)
      | JObj kvs \<Rightarrow>
          (case lookup kvs ''length'' of
             JNum n \<Rightarrow> Inr (0 < n)
           | JBool b \<Rightarrow> Inr b
           | JStr s \<Rightarrow> Inl Unsupported
           | JArr xs \<Rightarrow> Inl Unsupported
           | _ \<Rightarrow> Inr False)
      | _ \<Rightarrow> Inr False)"

text \<open>\<^verbatim>\<open>xs.filter(f)\<close>: only an array has the method.\<close>

definition arrayFilter :: "(js \<Rightarrow> error + bool) \<Rightarrow> js \<Rightarrow> error + js list" where
  "arrayFilter f v = (case v of JArr xs \<Rightarrow> filterE f xs | _ \<Rightarrow> Inl TypeError)"

definition mergePreferences :: "StateManager \<Rightarrow> js \<Rightarrow> js \<Rightarrow> js \<Rightarrow> error + js \<times> MergeChange list" where
  "mergePreferences sm existing inferred m =
     andThen (member existing ''preferences'') (\<lambda>ep.
       if falsy ep then Inr (m, [])
       else andThen (lengthPositive ep) (\<lambda>pos.
         if \<not> pos then Inr (m, [])
         else andThen (arrayFilter (\<lambda>pref. andThen (member pref ''category'') (\<lambda>cat.
                          Inr (isManuallyEdited sm ''constraints.json''
                                 (''preferences.'' @ toStr cat)))) ep) (\<lambda>manualPreferences.
              andThen (andThen (member inferred ''preferences'') spreadOrEmpty) (\<lambda>ips.
              andThen (setProp m ''preferences'' (JArr (ips @ manualPreferences))) (\<lambda>m'.
                Inr (m', if 0 < length manualPreferences
                         then [\<lparr>field = ''preferences'', ctype = Preserved,
                                oldValue = JUndefined, newValue = JArr manualPreferences,
                                reason = ''User-defined preferences preserved''\<rparr>]
                         else []))))))"

definition mergeItems :: "StateManager \<Rightarrow> string \<Rightarrow> js \<Rightarrow> js \<Rightarrow> js \<Rightarrow> error + js" where
  "mergeItems sm name existing inferred m =
     andThen (member existing name) (\<lambda>items.
       if falsy items then Inr m
       else andThen (arrayFilter (\<lambda>item. Inr (isManuallyEdited sm ''constraints.json''
                                   (name @ ''.'' @ toStr item))) items) (\<lambda>manual.
            andThen (andThen (member inferred name) spreadOrEmpty) (\<lambda>ims.
              setProp m name (JArr (newSet (ims @ manual))))))"

definition mergeConstraints :: "StateManager \<Rightarrow> js \<Rightarrow> js \<Rightarrow> error + MergeResult" where
  "mergeConstraints sm existing inferred =
     andThen (mergePreferences sm existing inferred (JObj (spreadObject inferred))) (\<lambda>(m1, chs).
     andThen (mergeItems sm ''mustUse'' existing inferred m1) (\<lambda>m2.
     andThen (mergeItems sm ''mustNotUse'' existing inferred m2) (\<lambda>m3.
       Inr \<lparr>merged = m3, changes = chs\<rparr>)))"

section \<open>Files\<close>

text \<open>
  What a pass can see and change outside its own memory: whether the context directory
  exists, the JSON files by path (as the values \<^verbatim>\<open>JSON.parse\<close> gives for them), the live
  provenance file \<^verbatim>\<open>state.json\<close> of the context directory (\<open>None\<close> when it is missing or
  does not parse), the backups by path, which paths can be written, what each inference
  routine returns or throws on the codebase as it is, and the clock.
\<close>

record world =
  dirExists :: bool
  docs :: "string \<rightharpoonup> js"
  stateFile :: "PreludeState option"
  history :: "string \<rightharpoonup> PreludeState"
  writable :: "string \<Rightarrow> bool"
  inference :: "string \<Rightarrow> error + js"
  wclock :: clock

type_synonym 'a io = "world \<Rightarrow> (error + 'a) \<times> world"

definition ioReturn :: "'a \<Rightarrow> 'a io" where
  "ioReturn x w = (Inr x, w)"

definition ioLift :: "error + 'a \<Rightarrow> 'a io" where
  "ioLift r w = (r, w)"

definition ioBind :: "'a io \<Rightarrow> ('a \<Rightarrow> 'b io) \<Rightarrow> 'b io" where
  "ioBind m k w = (case m w of (Inl e, w') \<Rightarrow> (Inl e, w') | (Inr x, w') \<Rightarrow> k x w')"

text \<open>\<^verbatim>\<open>path.join\<close> of a directory and a name (no normalisation is needed for the paths used).\<close>

definition pathJoin :: "string \<Rightarrow> string \<Rightarrow> string" where
  "pathJoin d n = d @ ''/'' @ n"

text \<open>What \<^verbatim>\<open>JSON.parse(JSON.stringify(v))\<close> gives: properties holding \<^verbatim>\<open>undefined\<close> are gone
  and \<^verbatim>\<open>undefined\<close> in an array is \<^verbatim>\<open>null\<close>.\<close>

fun to_json :: "js \<Rightarrow> js" where
  "to_json JUndefined = JNull"
| "to_json (JArr xs) = JArr (map to_json xs)"
| "to_json (JObj kvs) =
     JObj (map (\<lambda>(k, v). (k, to_json v)) (filter (\<lambda>(k, v). v \<noteq> JUndefined) kvs))"
| "to_json v = v"

definition readJSON :: "string \<Rightarrow> js io" where
  "readJSON p w = (case docs w p of None \<Rightarrow> (Inl ENOENT, w) | Some v \<Rightarrow> (Inr v, w))"

definition writeJSON :: "string \<Rightarrow> js \<Rightarrow> unit io" where
  "writeJSON p d w =
     (if \<not> writable w p then (Inl WriteFailed, w)
      else if d = JUndefined then (Inl TypeError, w)
      else (Inr (), w\<lparr>docs := (docs w)(p \<mapsto> to_json d)\<rparr>))"


definition infer :: "string \<Rightarrow> js io" where
  "infer kind w = (inference w kind, w)"


subsection \<open>The state manager on disk\<close>

definition statePath :: "string \<Rightarrow> string" where
  "statePath dir = pathJoin (pathJoin dir ''.prelude'') ''state.json''"

definition historyDir :: "string \<Rightarrow> string" where
  "historyDir dir = pathJoin (pathJoin dir ''.prelude'') ''history''"

text \<open>The constructor: \<^verbatim>\<open>loadState\<close> falls back to \<^verbatim>\<open>createInitialState()\<close>.\<close>

definition newStateManager :: "string \<Rightarrow> StateManager io" where
  "newStateManager dir w =
     (case stateFile w of
        Some st \<Rightarrow> (Inr \<lparr>state = st, contextDir = dir\<rparr>, w)
      | None \<Rightarrow>
          (let (st, c) = createInitialState (wclock w)
           in (Inr \<lparr>state = st, contextDir = dir\<rparr>, w\<lparr>wclock := c\<rparr>)))"

text \<open>The stored state is the state after \<^verbatim>\<open>JSON.stringify\<close>.\<close>

definition storedState :: "PreludeState \<Rightarrow> PreludeState" where
  "storedState st =
     st\<lparr>files := map (\<lambda>x. x\<lparr>fieldMap := map (\<lambda>(p, s). (p, s\<lparr>value := to_json (value s)\<rparr>))
                                             (fieldMap x)\<rparr>) (files st)\<rparr>"

definition save :: "StateManager \<Rightarrow> StateManager io" where
  "save sm w =
     (let sm' = sm\<lparr>state := (state sm)\<lparr>lastUpdate := now (wclock w)\<rparr>\<rparr>;
          w' = w\<lparr>wclock := tick (wclock w)\<rparr>
      in if writable w (statePath (contextDir sm))
         then (Inr sm', w'\<lparr>stateFile := Some (storedState (state sm'))\<rparr>)
         else (Inl WriteFailed, w'))"

text \<open>The name of a backup: the ISO timestamp with \<^verbatim>\<open>:\<close> replaced by \<^verbatim>\<open>-\<close> and cut from the
  first dot that another character of the same line follows.\<close>

fun cutAtDot :: "string \<Rightarrow> string" where
  "cutAtDot [] = []"
| "cutAtDot (c # cs) =
     (if c = CHR ''.'' \<and> cs \<noteq> [] \<and> hd cs \<noteq> CHR 0x0A \<and> hd cs \<noteq> CHR 0x0D
      then dropWhile (\<lambda>x. x \<noteq> CHR 0x0A \<and> x \<noteq> CHR 0x0D) cs
      else c # cutAtDot cs)"

definition backupPath :: "string \<Rightarrow> string \<Rightarrow> string" where
  "backupPath dir stamp =
     pathJoin (historyDir dir)
       (cutAtDot (map (\<lambda>c. if c = CHR '':'' then CHR ''-'' else c) stamp) @ ''.json'')"

definition backup :: "StateManager \<Rightarrow> unit io" where
  "backup sm w =
     (let p = backupPath (contextDir sm) (now (wclock w));
          w' = w\<lparr>wclock := tick (wclock w)\<rparr>
      in if writable w p
         then (Inr (), w'\<lparr>history := (history w)(p \<mapsto> storedState (state sm))\<rparr>)
         else (Inl WriteFailed, w'))"

section \<open>The update command (\<^verbatim>\<open>commands/update.ts\<close>)\<close>

record UpdateOptions =
  force :: bool
  dryRun :: bool
  interactive :: bool
  silent :: bool

datatype outcome = Returned | Exited nat

text \<open>\<^verbatim>\<open>trackAllFields\<close>.\<close>

definition trackOne :: "string \<Rightarrow> js \<Rightarrow> js \<Rightarrow> string \<Rightarrow> StateManager \<times> clock \<Rightarrow> error + StateManager \<times> clock" where
  "trackOne f m infd k smc =
     andThen (member m k) (\<lambda>mergedValue.
     andThen (member infd k) (\<lambda>inferredValue.
       if mergedValue = JUndefined then Inr smc
       else if sameJSON mergedValue inferredValue then trackInferred f k mergedValue smc
       else Inr (trackManual f k mergedValue smc)))"

definition trackAllFields :: "string \<Rightarrow> js \<Rightarrow> js \<Rightarrow> StateManager \<times> clock \<Rightarrow> error + StateManager \<times> clock" where
  "trackAllFields f m infd smc =
     andThen (objectKeys m) (\<lambda>ks. foldE (trackOne f m infd) ks smc)"

definition trackAll :: "string \<Rightarrow> js \<Rightarrow> js \<Rightarrow> StateManager \<Rightarrow> StateManager io" where
  "trackAll f m infd sm w =
     (case trackAllFields f m infd (sm, wclock w) of
        Inl e \<Rightarrow> (Inl e, w)
      | Inr (sm', c) \<Rightarrow> (Inr sm', w\<lparr>wclock := c\<rparr>))"

definition forceUpdate :: "string \<Rightarrow> js \<times> js \<times> js \<times> js \<Rightarrow> UpdateOptions \<Rightarrow> unit io" where
  "forceUpdate dir = (\<lambda>(ip, ist, ia, ic) opts.
     if dryRun opts then ioReturn ()
     else ioBind (writeJSON (pathJoin dir ''project.json'') ip) (\<lambda>_.
          ioBind (writeJSON (pathJoin dir ''stack.json'') ist) (\<lambda>_.
          ioBind (writeJSON (pathJoin dir ''architecture.json'') ia) (\<lambda>_.
                  writeJSON (pathJoin dir ''constraints.json'') ic))))"

definition mergeProjectIO :: "StateManager \<Rightarrow> js \<Rightarrow> js \<Rightarrow> (MergeResult \<times> js) io" where
  "mergeProjectIO sm existing inferred w =
     (case mergeProject sm existing inferred (wclock w) of
        Inl e \<Rightarrow> (Inl e, w)
      | Inr (r, infd, c) \<Rightarrow> (Inr (r, infd), w\<lparr>wclock := c\<rparr>))"

definition tagged :: "string \<Rightarrow> MergeResult \<Rightarrow> (string \<times> MergeChange) list" where
  "tagged f r = map (Pair f) (changes r)"

definition applyChanges ::
  "string \<Rightarrow> StateManager \<Rightarrow> MergeResult \<times> js \<Rightarrow> MergeResult \<times> js \<Rightarrow> MergeResult \<times> js
     \<Rightarrow> MergeResult \<times> js \<Rightarrow> unit io" where
  "applyChanges dir sm = (\<lambda>(pr, ip) (sr, ist) (ar, ia) (cr, ic).
     ioBind (writeJSON (pathJoin dir ''project.json'') (merged pr)) (\<lambda>_.
     ioBind (writeJSON (pathJoin dir ''stack.json'') (merged sr)) (\<lambda>_.
     ioBind (writeJSON (pathJoin dir ''architecture.json'') (merged ar)) (\<lambda>_.
     ioBind (writeJSON (pathJoin dir ''constraints.json'') (merged cr)) (\<lambda>_.
     ioBind (trackAll ''project.json'' (merged pr) ip sm) (\<lambda>sm1.
     ioBind (trackAll ''stack.json'' (merged sr) ist sm1) (\<lambda>sm2.
     ioBind (trackAll ''architecture.json'' (merged ar) ia sm2) (\<lambda>sm3.
     ioBind (trackAll ''constraints.json'' (merged cr) ic sm3) (\<lambda>sm4.
     ioBind (save sm4) (\<lambda>_. ioReturn ()))))))))))"

definition smartMerge :: "string \<Rightarrow> StateManager \<Rightarrow> UpdateOptions \<Rightarrow> js \<times> js \<times> js \<times> js \<Rightarrow> js \<times> js \<times> js \<times> js \<Rightarrow> unit io" where
  "smartMerge dir sm opts = (\<lambda>(ep, es, ea, ec) (ip, ist, ia, ic).
     ioBind (mergeProjectIO sm ep ip) (\<lambda>(pr, ip').
     ioBind (ioLift (mergeStack sm es ist)) (\<lambda>sr.
     ioBind (ioLift (mergeArchitecture sm ea ia)) (\<lambda>ar.
     ioBind (ioLift (mergeConstraints sm ec ic)) (\<lambda>cr.
       let allChanges = tagged ''project.json'' pr @ tagged ''stack.json'' sr
                      @ tagged ''architecture.json'' ar @ tagged ''constraints.json'' cr
       in if length allChanges = 0 then ioReturn ()
          else if dryRun opts then ioReturn ()
          else applyChanges dir sm (pr, ip') (sr, ist) (ar, ia) (cr, ic))))))"

text \<open>The body of the \<^verbatim>\<open>try\<close> block.\<close>

definition updateBody :: "string \<Rightarrow> UpdateOptions \<Rightarrow> unit io" where
  "updateBody dir opts =
     ioBind (newStateManager dir) (\<lambda>sm.
     ioBind (if \<not> dryRun opts then backup sm else ioReturn ()) (\<lambda>_.
     ioBind (readJSON (pathJoin dir ''project.json'')) (\<lambda>ep.
     ioBind (readJSON (pathJoin dir ''stack.json'')) (\<lambda>es.
     ioBind (readJSON (pathJoin dir ''architecture.json'')) (\<lambda>ea.
     ioBind (readJSON (pathJoin dir ''constraints.json'')) (\<lambda>ec.
     ioBind (infer ''project'') (\<lambda>ip.
     ioBind (infer ''stack'') (\<lambda>ist.
     ioBind (infer ''architecture'') (\<lambda>ia.
     ioBind (infer ''constraints'') (\<lambda>ic.
       if force opts then forceUpdate dir (ip, ist, ia, ic) opts
       else smartMerge dir sm opts (ep, es, ea, ec) (ip, ist, ia, ic)))))))))))"

text \<open>\<^verbatim>\<open>update\<close>: without a context directory, and on anything thrown inside the \<^verbatim>\<open>try\<close>
  block, the process exits with status 1.\<close>

definition update :: "UpdateOptions \<Rightarrow> world \<Rightarrow> outcome \<times> world" where
  "update opts w =
     (if \<not> dirExists w then (Exited 1, w)
      else (case updateBody ''.context'' opts w of
              (Inl e, w') \<Rightarrow> (Exited 1, w')
            | (Inr u, w') \<Rightarrow> (Returned, w')))"

section \<open>The watcher's updater (\<^verbatim>\<open>core/updater.ts\<close>)\<close>









section \<open>Document shapes\<close>

text \<open>The types that the schemas give to the fields the merger reads. A document is read
  with \<^verbatim>\<open>readJSON<Stack>\<close> and the like, which does not validate it; these predicates say
  when it has the declared type.\<close>

definition isStr :: "js \<Rightarrow> bool" where
  "isStr v = (case v of JStr s \<Rightarrow> True | _ \<Rightarrow> False)"

text \<open>\<^verbatim>\<open>z.array(z.string()).optional()\<close>.\<close>

definition optStrings :: "js \<Rightarrow> bool" where
  "optStrings v = (case v of JUndefined \<Rightarrow> True | JArr xs \<Rightarrow> list_all isStr xs | _ \<Rightarrow> False)"

definition stackTyped :: "js \<Rightarrow> bool" where
  "stackTyped d =
     (case d of
        JObj kvs \<Rightarrow> list_all (\<lambda>k. optStrings (lookup kvs k))
                     [''frameworks'', ''buildTools'', ''testingFrameworks'', ''styling'']
      | _ \<Rightarrow> False)"

section \<open>Provenance tags\<close>

text \<open>The field state of \<open>k\<close> holds the merged value of \<open>k\<close>, tagged \<open>Inferred\<close> when that value
  serialises as the inferred one and \<open>Manual\<close> otherwise.\<close>

definition tagged_as :: "string \<Rightarrow> (string \<times> js) list \<Rightarrow> (string \<times> js) list \<Rightarrow> StateManager \<Rightarrow> string \<Rightarrow> bool" where
  "tagged_as f mkvs ikvs sm k =
     (case getFieldState sm f k of
        None \<Rightarrow> False
      | Some s \<Rightarrow> value s = lookup mkvs k
                 \<and> source s = (if sameJSON (lookup mkvs k) (lookup ikvs k) then Inferred else Manual))"













section \<open>Example inputs\<close>

definition ex_clock :: clock where
  "ex_clock = \<lparr>readings = (\<lambda>n. ''2025-06-01T12:00:00.000Z''), reads = 0\<rparr>"

definition ex_tracked :: StateManager where
  "ex_tracked =
     \<lparr>state = \<lparr>version = ''1.0.0'', initialized = ''2025-01-01T00:00:00.000Z'',
                lastUpdate = ''2025-01-01T00:00:00.000Z'',
                files = [\<lparr>file = ''project.json'', lastUpdated = ''2025-01-01T00:00:00.000Z'',
                          fieldMap = [(''name'',
                            \<lparr>value = JStr ''prelude'', source = Inferred,
                             lastInferred = Some ''2025-01-01T00:00:00.000Z'',
                             lastModified = None,
                             inferredHash = Some ''0123456789abcdef''\<rparr>)]\<rparr>]\<rparr>,
      contextDir = ''.context''\<rparr>"

definition ex_stack_old :: js where
  "ex_stack_old = JObj [(''language'', JStr ''TypeScript''),
                        (''frameworks'', JArr [JStr ''React'', JStr ''Remix''])]"

definition ex_stack_new :: js where
  "ex_stack_new = JObj [(''language'', JStr ''TypeScript''),
                        (''frameworks'', JArr [JStr ''React'', JStr ''Next.js''])]"

definition ex_remix_manual :: StateManager where
  "ex_remix_manual =
     \<lparr>state = \<lparr>version = ''1.0.0'', initialized = ''2025-01-01T00:00:00.000Z'',
                lastUpdate = ''2025-01-01T00:00:00.000Z'',
                files = [\<lparr>file = ''stack.json'', lastUpdated = ''2025-01-01T00:00:00.000Z'',
                          fieldMap = [(''frameworks.Remix'',
                            \<lparr>value = JStr ''Remix'', source = Manual, lastInferred = None,
                             lastModified = Some ''2025-01-01T00:00:00.000Z'',
                             inferredHash = None\<rparr>)]\<rparr>]\<rparr>,
      contextDir = ''.context''\<rparr>"

definition ex_project_merged :: "(string \<times> js) list" where
  "ex_project_merged = [(''name'', JStr ''prelude''), (''description'', JStr ''edited by hand'')]"

definition ex_project_inferred :: "(string \<times> js) list" where
  "ex_project_inferred = [(''name'', JStr ''prelude''), (''description'', JStr ''inferred'')]"

definition ex_project :: js where
  "ex_project = JObj [(''name'', JStr ''prelude''),
                      (''updatedAt'', JStr ''2025-01-01T00:00:00.000Z'')]"

definition ex_architecture :: js where
  "ex_architecture = JObj [(''directories'', JArr [JObj [(''path'', JStr ''src'')]])]"

definition ex_constraints :: js where
  "ex_constraints = JObj [(''mustUse'', JArr [JStr ''TypeScript''])]"

definition ex_docs :: "string \<rightharpoonup> js" where
  "ex_docs = map_of [(''.context/project.json'', ex_project),
                     (''.context/stack.json'', ex_stack_new),
                     (''.context/architecture.json'', ex_architecture),
                     (''.context/constraints.json'', ex_constraints),
                     (''.context/decisions.json'', JObj [(''decisions'', JArr [])])]"

definition ex_inference :: "string \<Rightarrow> error + js" where
  "ex_inference kind =
     (if kind = ''project'' then Inr ex_project
      else if kind = ''stack'' then Inr ex_stack_new
      else if kind = ''architecture'' then Inr ex_architecture
      else if kind = ''constraints'' then Inr ex_constraints
      else Inl InferenceFailed)"

definition ex_world :: world where
  "ex_world = \<lparr>dirExists = True, docs = ex_docs, stateFile = Some (state ex_tracked),
                history = Map.empty, writable = (\<lambda>p. True), inference = ex_inference,
                wclock = ex_clock\<rparr>"

definition ex_plain :: UpdateOptions where
  "ex_plain = \<lparr>force = False, dryRun = False, interactive = False, silent = True\<rparr>"














section \<open>Properties of the state manager\<close>

lemma find_modifyFirst:
  assumes "\<And>x. file (g x) = file x"
  shows "find (\<lambda>x. file x = f') (modifyFirst f g xs) =
         (if f' = f then map_option g (find (\<lambda>x. file x = f) xs) else find (\<lambda>x. file x = f') xs)"
  using assms by (induction xs) auto

lemma getFileState_modify:
  assumes "\<And>x. file (g x) = file x"
  shows "getFileState (modifyFileState f g sm) f' =
         (if f' = f then map_option g (getFileState sm f) else getFileState sm f')"
  using find_modifyFirst [OF assms] by (simp add: getFileState_def modifyFileState_def)

lemma find_snoc:
  "find P (xs @ [y]) = (case find P xs of None \<Rightarrow> (if P y then Some y else None) | Some x \<Rightarrow> Some x)"
  by (induction xs) auto

lemma getFileState_getOrCreate:
  "\<exists>x. getFileState (fst (getOrCreateFileState f (sm, c))) f = Some x"
  by (auto simp: getOrCreateFileState_def getFileState_def find_snoc split: option.splits)

lemma getFieldState_setField:
  assumes "getFileState sm f = Some x"
  shows "getFieldState (setField f p s sm) f p = Some s"
  using assms
  by (simp add: getFieldState_def setField_def getFileState_modify update_Some_unfold
      split: option.splits)

lemma getFieldState_touch:
  "getFieldState (fst (touch f (sm, c))) f' p = getFieldState sm f' p"
  by (simp add: touch_def getFieldState_def getFileState_modify split: option.splits)

text \<open>
  C4 (as amended). \<^verbatim>\<open>trackManual\<close> stores a fresh \<^verbatim>\<open>FieldState\<close> built by
  \<^verbatim>\<open>trackField(value, 'manual')\<close>: the record has the new value, source \<open>Manual\<close>,
  \<open>lastModified\<close> set to the clock reading taken by \<^verbatim>\<open>trackField\<close>, and neither a
  \<open>lastInferred\<close> nor an \<open>inferredHash\<close>, whatever was recorded for the path before.
\<close>

theorem trackManual_replaces_field_state:
  "getFieldState (fst (trackManual f p v (sm, c))) f p =
     Some \<lparr>value = v, source = Manual, lastInferred = None,
           lastModified = Some (now (snd (getOrCreateFileState f (sm, c)))),
           inferredHash = None\<rparr>"
proof -
  obtain sm1 c1 where g: "getOrCreateFileState f (sm, c) = (sm1, c1)"
    by (cases "getOrCreateFileState f (sm, c)")
  from getFileState_getOrCreate [of f sm c] g obtain x where x: "getFileState sm1 f = Some x"
    by auto
  show ?thesis
    using getFieldState_setField [OF x]
    by (simp add: trackManual_def g trackField_def getFieldState_touch)
qed

text \<open>
  C4 (as stated) fails: a field recorded with an \<open>inferredHash\<close> has none after
  \<^verbatim>\<open>trackManual\<close>.
\<close>

theorem trackManual_drops_inferredHash:
  "map_option inferredHash (getFieldState ex_tracked ''project.json'' ''name'')
     = Some (Some ''0123456789abcdef'')
   \<and> map_option inferredHash
        (getFieldState (fst (trackManual ''project.json'' ''name'' (JStr ''edited'')
           (ex_tracked, ex_clock))) ''project.json'' ''name'') = Some None"
  by (simp add: ex_tracked_def ex_clock_def trackManual_def getOrCreateFileState_def
      getFileState_def trackField_def touch_def setField_def modifyFileState_def
      getFieldState_def now_def tick_def)

section \<open>Properties of the merger\<close>

lemma andThen_Inl [simp]: "andThen (Inl e) k = Inl e"
  by (simp add: andThen_def)

lemma andThen_Inr [simp]: "andThen (Inr x) k = k x"
  by (simp add: andThen_def)

lemma andThen_eq_Inr: "andThen r k = Inr y \<longleftrightarrow> (\<exists>x. r = Inr x \<and> k x = Inr y)"
  by (cases r) auto

subsection \<open>\<^verbatim>\<open>mergeStack\<close>\<close>

lemma spreadOrEmpty_optStrings: "optStrings v \<Longrightarrow> \<exists>xs. spreadOrEmpty v = Inr xs"
  by (cases v) (auto simp: optStrings_def spreadOrEmpty_def falsy_def)

lemma stackDeps_typed:
  assumes "stackTyped d"
  shows "\<exists>ds. stackDeps d = Inr ds"
proof -
  from assms obtain kvs where d: "d = JObj kvs"
    by (cases d) (auto simp: stackTyped_def)
  have m: "member d k = Inr (lookup kvs k)" for k
    by (simp add: d member_def)
  from assms d have t: "optStrings (lookup kvs ''frameworks'')"
    "optStrings (lookup kvs ''buildTools'')"
    "optStrings (lookup kvs ''testingFrameworks'')" "optStrings (lookup kvs ''styling'')"
    by (simp_all add: stackTyped_def)
  from t [THEN spreadOrEmpty_optStrings] show ?thesis
    by (auto simp: stackDeps_def m)
qed

lemma mergeStack_shape:
  assumes "mergeStack sm existing inferred = Inr r"
  shows "merged r = JObj (spreadObject inferred)
       \<and> (\<forall>c \<in> set (changes r). field c = ''dependencies''
                                  \<and> (ctype c = Added \<or> ctype c = Removed))"
  using assms
  by (auto simp: mergeStack_def andThen_eq_Inr removedDep_def addedDep_def)

text \<open>
  C9. For Stack documents, whatever the provenance state holds, \<^verbatim>\<open>mergeStack\<close> returns, and
  its merged document is the copy of the inferred one: nothing of \<open>existing\<close> is in it. The
  existing document shows in the change report only, whose entries all have the field
  name \<^verbatim>\<open>dependencies\<close> and the type Added or Removed.
\<close>

theorem mergeStack_returns_inferred:
  assumes "stackTyped existing" and "stackTyped inferred"
  shows "\<exists>chs. mergeStack sm existing inferred = Inr \<lparr>merged = inferred, changes = chs\<rparr>
           \<and> (\<forall>c \<in> set chs. field c = ''dependencies''
                               \<and> (ctype c = Added \<or> ctype c = Removed))"
proof -
  from stackDeps_typed [OF assms(1)] stackDeps_typed [OF assms(2)]
  obtain r where r: "mergeStack sm existing inferred = Inr r"
    by (auto simp: mergeStack_def)
  from assms(2) obtain kvs where "inferred = JObj kvs"
    by (cases inferred) (auto simp: stackTyped_def)
  with mergeStack_shape [OF r] have "merged r = inferred" and
    "\<forall>c \<in> set (changes r). field c = ''dependencies'' \<and> (ctype c = Added \<or> ctype c = Removed)"
    by simp_all
  moreover have "r = \<lparr>merged = merged r, changes = changes r\<rparr>" by simp
  ultimately show ?thesis using r by metis
qed

theorem mergeStack_returns_inferred_witness:
  "stackTyped ex_stack_old \<and> stackTyped ex_stack_new
   \<and> mergeStack ex_remix_manual ex_stack_old ex_stack_new
       = Inr \<lparr>merged = ex_stack_new,
              changes = [removedDep (JStr ''Remix''), addedDep (JStr ''Next.js'')]\<rparr>"
proof -
  have a: "stackTyped ex_stack_old" and b: "stackTyped ex_stack_new"
    by (simp_all add: stackTyped_def ex_stack_old_def ex_stack_new_def lookup_def
        optStrings_def isStr_def)
  from mergeStack_returns_inferred [OF a b, of ex_remix_manual]
  obtain chs where "mergeStack ex_remix_manual ex_stack_old ex_stack_new
                      = Inr \<lparr>merged = ex_stack_new, changes = chs\<rparr>"
    by blast
  moreover have "changes (projr (mergeStack ex_remix_manual ex_stack_old ex_stack_new))
                   = [removedDep (JStr ''Remix''), addedDep (JStr ''Next.js'')]"
    by (simp add: ex_stack_old_def ex_stack_new_def mergeStack_def stackDeps_def member_def
        andThen_def lookup_def spreadOrEmpty_def falsy_def newSet_def setHas_def
        sameValueZero_def)
  ultimately show ?thesis using a b by simp
qed


section \<open>Provenance tracking after a merge\<close>

lemma getFieldState_getOrCreate:
  "getFieldState (fst (getOrCreateFileState f (sm, c))) f' p = getFieldState sm f' p"
  by (auto simp: getOrCreateFileState_def getFieldState_def getFileState_def find_snoc
      split: option.splits)

lemma getFieldState_setField_other:
  "f' \<noteq> f \<or> p' \<noteq> p \<Longrightarrow> getFieldState (setField f p s sm) f' p' = getFieldState sm f' p'"
  by (auto simp: getFieldState_def setField_def getFileState_modify update_conv'
      split: option.splits)

lemma trackManual_other:
  assumes "f' \<noteq> f \<or> p' \<noteq> p"
  shows "getFieldState (fst (trackManual f p v (sm, c))) f' p' = getFieldState sm f' p'"
proof -
  obtain sm1 c1 where g: "getOrCreateFileState f (sm, c) = (sm1, c1)"
    by (cases "getOrCreateFileState f (sm, c)")
  have "getFieldState sm1 f' p' = getFieldState sm f' p'"
    using getFieldState_getOrCreate [of f sm c f' p'] g by simp
  then show ?thesis
    using assms
    by (simp add: trackManual_def g trackField_def getFieldState_touch getFieldState_setField_other)
qed

lemma hash_defined: "v \<noteq> JUndefined \<Longrightarrow> \<exists>h. hash v = Inr h"
  by (simp add: hash_def stringify_def)

lemma trackInferred_field:
  assumes "v \<noteq> JUndefined"
  shows "\<exists>smc'. trackInferred f p v (sm, c) = Inr smc'
           \<and> (\<exists>s. getFieldState (fst smc') f p = Some s \<and> value s = v \<and> source s = Inferred)
           \<and> (\<forall>f' p'. f' \<noteq> f \<or> p' \<noteq> p \<longrightarrow> getFieldState (fst smc') f' p' = getFieldState sm f' p')"
proof -
  obtain sm1 c1 where g: "getOrCreateFileState f (sm, c) = (sm1, c1)"
    by (cases "getOrCreateFileState f (sm, c)")
  from getFileState_getOrCreate [of f sm c] g obtain x where x: "getFileState sm1 f = Some x"
    by auto
  from hash_defined [OF assms] obtain h where h: "hash v = Inr h" by blast
  have o: "getFieldState sm1 f' p' = getFieldState sm f' p'" for f' p'
    using getFieldState_getOrCreate [of f sm c f' p'] g by simp
  show ?thesis
    using getFieldState_setField [OF x]
    by (simp add: trackInferred_def g h trackField_def getFieldState_touch
        getFieldState_setField_other o)
qed

lemma trackManual_field:
  "\<exists>s. getFieldState (fst (trackManual f p v (sm, c))) f p = Some s \<and> value s = v \<and> source s = Manual"
proof -
  obtain sm1 c1 where g: "getOrCreateFileState f (sm, c) = (sm1, c1)"
    by (cases "getOrCreateFileState f (sm, c)")
  from getFileState_getOrCreate [of f sm c] g obtain x where x: "getFileState sm1 f = Some x"
    by auto
  show ?thesis
    using getFieldState_setField [OF x]
    by (simp add: trackManual_def g trackField_def getFieldState_touch)
qed


lemma trackOne_step:
  "\<exists>smc'. trackOne f (JObj mkvs) (JObj ikvs) x (sm, c) = Inr smc'
      \<and> (lookup mkvs x \<noteq> JUndefined \<longrightarrow> tagged_as f mkvs ikvs (fst smc') x)
      \<and> (\<forall>k. k \<noteq> x \<longrightarrow> getFieldState (fst smc') f k = getFieldState sm f k)"
proof (cases "lookup mkvs x = JUndefined")
  case True
  then show ?thesis by (simp add: trackOne_def member_def)
next
  case False
  show ?thesis
  proof (cases "sameJSON (lookup mkvs x) (lookup ikvs x)")
    case True
    from trackInferred_field [OF False, of f x sm c] obtain smc' s where
      r: "trackInferred f x (lookup mkvs x) (sm, c) = Inr smc'"
      and s: "getFieldState (fst smc') f x = Some s" "value s = lookup mkvs x" "source s = Inferred"
      and o: "\<forall>f' p'. f' \<noteq> f \<or> p' \<noteq> x \<longrightarrow> getFieldState (fst smc') f' p' = getFieldState sm f' p'"
      by blast
    have "trackOne f (JObj mkvs) (JObj ikvs) x (sm, c) = Inr smc'"
      using False True r by (simp add: trackOne_def member_def)
    moreover have "tagged_as f mkvs ikvs (fst smc') x"
      using s True by (simp add: tagged_as_def)
    ultimately show ?thesis using o by blast
  next
    case n: False
    let ?r = "trackManual f x (lookup mkvs x) (sm, c)"
    from trackManual_field [of f x "lookup mkvs x" sm c] obtain s where
      s: "getFieldState (fst ?r) f x = Some s" "value s = lookup mkvs x" "source s = Manual"
      by blast
    have "trackOne f (JObj mkvs) (JObj ikvs) x (sm, c) = Inr ?r"
      using False n by (simp add: trackOne_def member_def)
    moreover have "tagged_as f mkvs ikvs (fst ?r) x"
      using s n by (simp add: tagged_as_def)
    moreover have "\<forall>k. k \<noteq> x \<longrightarrow> getFieldState (fst ?r) f k = getFieldState sm f k"
      using trackManual_other [of f f _ x] by simp
    ultimately show ?thesis by blast
  qed
qed

lemma trackAll_loop:
  "\<exists>smc'. foldE (trackOne f (JObj mkvs) (JObj ikvs)) ks (sm, c) = Inr smc'
      \<and> (\<forall>k. lookup mkvs k \<noteq> JUndefined \<longrightarrow> k \<in> set ks \<or> tagged_as f mkvs ikvs sm k
             \<longrightarrow> tagged_as f mkvs ikvs (fst smc') k)"
proof (induction ks arbitrary: sm c)
  case Nil
  then show ?case by simp
next
  case (Cons x xs)
  from trackOne_step [of f mkvs ikvs x sm c] obtain sm1 c1 where
    s: "trackOne f (JObj mkvs) (JObj ikvs) x (sm, c) = Inr (sm1, c1)"
    and t: "lookup mkvs x \<noteq> JUndefined \<longrightarrow> tagged_as f mkvs ikvs sm1 x"
    and o: "\<forall>k. k \<noteq> x \<longrightarrow> getFieldState sm1 f k = getFieldState sm f k"
    by auto
  from Cons.IH [of sm1 c1] obtain smc' where
    r: "foldE (trackOne f (JObj mkvs) (JObj ikvs)) xs (sm1, c1) = Inr smc'"
    and i: "\<forall>k. lookup mkvs k \<noteq> JUndefined \<longrightarrow> k \<in> set xs \<or> tagged_as f mkvs ikvs sm1 k
             \<longrightarrow> tagged_as f mkvs ikvs (fst smc') k"
    by blast
  have p: "tagged_as f mkvs ikvs sm1 k" if "k \<noteq> x" "tagged_as f mkvs ikvs sm k" for k
    using that o by (simp add: tagged_as_def)
  have "tagged_as f mkvs ikvs (fst smc') k"
    if d: "lookup mkvs k \<noteq> JUndefined" and h: "k \<in> set (x # xs) \<or> tagged_as f mkvs ikvs sm k" for k
  proof (cases "k = x")
    case True
    with t d i show ?thesis by blast
  next
    case False
    with h p [OF False] have "k \<in> set xs \<or> tagged_as f mkvs ikvs sm1 k" by auto
    with i d show ?thesis by blast
  qed
  with s r show ?case by simp
qed

lemma lookup_defined_key: "lookup kvs k \<noteq> JUndefined \<Longrightarrow> k \<in> set (map fst kvs)"
proof -
  assume "lookup kvs k \<noteq> JUndefined"
  then obtain v where "map_of kvs k = Some v"
    by (cases "map_of kvs k") (auto simp: lookup_def)
  then have "(k, v) \<in> set kvs" by (rule map_of_SomeD)
  then show ?thesis by force
qed

text \<open>
  C7. After \<^verbatim>\<open>trackAllFields(stateManager, file, merged, inferred)\<close>, every field of the
  merged document (a key whose value is not \<^verbatim>\<open>undefined\<close>) has a field state holding its
  value, tagged \<open>Inferred\<close> when \<^verbatim>\<open>JSON.stringify\<close> gives the same for the merged and the
  inferred value and \<open>Manual\<close> otherwise, whatever state the field had before.
\<close>

theorem trackAllFields_tags_by_comparison:
  assumes "lookup mkvs k \<noteq> JUndefined"
  shows "\<exists>sm' c' s. trackAllFields f (JObj mkvs) (JObj ikvs) (sm, c) = Inr (sm', c')
           \<and> getFieldState sm' f k = Some s
           \<and> value s = lookup mkvs k
           \<and> source s = (if stringify (lookup mkvs k) = stringify (lookup ikvs k)
                         then Inferred else Manual)"
proof -
  from trackAll_loop [of f mkvs ikvs "map fst mkvs" sm c] obtain sm' c' where
    r: "foldE (trackOne f (JObj mkvs) (JObj ikvs)) (map fst mkvs) (sm, c) = Inr (sm', c')"
    and i: "\<forall>k. lookup mkvs k \<noteq> JUndefined \<longrightarrow> k \<in> set (map fst mkvs) \<or> tagged_as f mkvs ikvs sm k
             \<longrightarrow> tagged_as f mkvs ikvs sm' k"
    by fastforce
  from i assms lookup_defined_key [OF assms] have "tagged_as f mkvs ikvs sm' k" by blast
  then obtain s where "getFieldState sm' f k = Some s" "value s = lookup mkvs k"
    "source s = (if sameJSON (lookup mkvs k) (lookup ikvs k) then Inferred else Manual)"
    by (cases "getFieldState sm' f k") (auto simp: tagged_as_def)
  moreover have "trackAllFields f (JObj mkvs) (JObj ikvs) (sm, c) = Inr (sm', c')"
    using r by (simp add: trackAllFields_def objectKeys_def)
  ultimately show ?thesis by (auto simp: sameJSON_def)
qed

theorem trackAllFields_tags_by_comparison_witness:
  "lookup ex_project_merged ''description'' \<noteq> JUndefined
   \<and> (\<exists>sm' c' s. trackAllFields ''project.json'' (JObj ex_project_merged)
                    (JObj ex_project_inferred) (ex_tracked, ex_clock) = Inr (sm', c')
         \<and> getFieldState sm' ''project.json'' ''description'' = Some s
         \<and> value s = JStr ''edited by hand'' \<and> source s = Manual)"
proof -
  have d: "lookup ex_project_merged ''description'' \<noteq> JUndefined"
    by (simp add: ex_project_merged_def lookup_def)
  have v: "lookup ex_project_merged ''description'' = JStr ''edited by hand''"
    by (simp add: ex_project_merged_def lookup_def)
  have n: "stringify (lookup ex_project_merged ''description'')
             \<noteq> stringify (lookup ex_project_inferred ''description'')"
    by (simp add: ex_project_merged_def ex_project_inferred_def lookup_def stringify_def quote_def
        escape_char_def)
  from trackAllFields_tags_by_comparison [OF d, of "''project.json''" ex_project_inferred
      ex_tracked ex_clock]
  show ?thesis using d n unfolding v by auto
qed

section \<open>Properties of the update command\<close>

lemma newStateManager_frame:
  assumes "newStateManager dir w = (r, w1)"
  shows "\<exists>sm. r = Inr sm \<and> contextDir sm = dir \<and> w1 = w\<lparr>wclock := wclock w1\<rparr>"
  using assms
  by (auto simp: newStateManager_def createInitialState_def split: option.splits)

lemma backup_frame:
  assumes "backup sm w1 = (Inr u, w2)"
  shows "w2 = w1\<lparr>wclock := tick (wclock w1),
                history := (history w1)(backupPath (contextDir sm) (now (wclock w1))
                              \<mapsto> storedState (state sm))\<rparr>"
  using assms by (auto simp: backup_def Let_def split: if_splits)

text \<open>Up to the choice between the force pass and the merge: the state manager is
  loaded, the backup is written, the four documents are read and inferred.\<close>

lemma update_reads:
  assumes "\<not> dryRun opts"
    and "newStateManager ''.context'' w = (Inr sm, w1)"
    and "backup sm w1 = (Inr (), w2)"
    and "docs w (pathJoin ''.context'' ''project.json'') = Some ep"
    and "docs w (pathJoin ''.context'' ''stack.json'') = Some es"
    and "docs w (pathJoin ''.context'' ''architecture.json'') = Some ea"
    and "docs w (pathJoin ''.context'' ''constraints.json'') = Some ec"
    and "inference w ''project'' = Inr ip" and "inference w ''stack'' = Inr ist"
    and "inference w ''architecture'' = Inr ia" and "inference w ''constraints'' = Inr ic"
  shows "updateBody ''.context'' opts w =
           (if force opts then forceUpdate ''.context'' (ip, ist, ia, ic) opts w2
            else smartMerge ''.context'' sm opts (ep, es, ea, ec) (ip, ist, ia, ic) w2)"
    and "docs w2 = docs w" and "inference w2 = inference w" and "stateFile w2 = stateFile w"
    and "writable w2 = writable w"
    and "history w2 = (history w)(backupPath ''.context'' (now (wclock w1))
                                    \<mapsto> storedState (state sm))"
proof -
  from newStateManager_frame [OF assms(2)] have
    w1: "w1 = w\<lparr>wclock := wclock w1\<rparr>" and d: "contextDir sm = ''.context''"
    by auto
  from backup_frame [OF assms(3)] d have
    w2: "w2 = w1\<lparr>wclock := tick (wclock w1),
                  history := (history w1)(backupPath ''.context'' (now (wclock w1))
                              \<mapsto> storedState (state sm))\<rparr>"
    by simp
  show f: "docs w2 = docs w" "inference w2 = inference w" "stateFile w2 = stateFile w"
    "writable w2 = writable w"
    "history w2 = (history w)(backupPath ''.context'' (now (wclock w1)) \<mapsto> storedState (state sm))"
    by (subst w2, subst w1, simp)+
  have "readJSON p w2 = (Inr v, w2)" if "docs w p = Some v" for p v
    using that f(1) by (simp add: readJSON_def)
  note rd = this [OF assms(4)] this [OF assms(5)] this [OF assms(6)] this [OF assms(7)]
  have "infer k w2 = (Inr v, w2)" if "inference w k = Inr v" for k v
    using that f(2) by (simp add: infer_def)
  note inf = this [OF assms(8)] this [OF assms(9)] this [OF assms(10)] this [OF assms(11)]
  show "updateBody ''.context'' opts w =
           (if force opts then forceUpdate ''.context'' (ip, ist, ia, ic) opts w2
            else smartMerge ''.context'' sm opts (ep, es, ea, ec) (ip, ist, ia, ic) w2)"
    using assms(1)
    by (simp add: updateBody_def ioBind_def assms(2,3) rd inf)
qed

text \<open>
  C10. When the four merges report no change, a pass that is neither forced nor a dry
  run returns after the backup: no document is written and \<^verbatim>\<open>state.json\<close> is as before;
  the only file added is the backup taken at the start.
\<close>

theorem update_without_changes_leaves_files:
  assumes "dirExists w" and "\<not> force opts" and "\<not> dryRun opts"
    and "newStateManager ''.context'' w = (Inr sm, w1)"
    and "backup sm w1 = (Inr (), w2)"
    and "docs w (pathJoin ''.context'' ''project.json'') = Some ep"
    and "docs w (pathJoin ''.context'' ''stack.json'') = Some es"
    and "docs w (pathJoin ''.context'' ''architecture.json'') = Some ea"
    and "docs w (pathJoin ''.context'' ''constraints.json'') = Some ec"
    and "inference w ''project'' = Inr ip" and "inference w ''stack'' = Inr ist"
    and "inference w ''architecture'' = Inr ia" and "inference w ''constraints'' = Inr ic"
    and "mergeProject sm ep ip (wclock w2) = Inr (pr, ip', c3)"
    and "mergeStack sm es ist = Inr sr"
    and "mergeArchitecture sm ea ia = Inr ar"
    and "mergeConstraints sm ec ic = Inr cr"
    and "changes pr @ changes sr @ changes ar @ changes cr = []"
  shows "\<exists>w'. update opts w = (Returned, w')
           \<and> docs w' = docs w \<and> stateFile w' = stateFile w
           \<and> history w' = (history w)(backupPath ''.context'' (now (wclock w1))
                                         \<mapsto> storedState (state sm))"
proof -
  note r = update_reads [OF assms(3-13)]
  have "smartMerge ''.context'' sm opts (ep, es, ea, ec) (ip, ist, ia, ic) w2
          = (Inr (), w2\<lparr>wclock := c3\<rparr>)"
    using assms(14-18)
    by (simp add: smartMerge_def mergeProjectIO_def tagged_def ioBind_def ioLift_def
        ioReturn_def)
  then show ?thesis
    using assms(1,2) r by (simp add: update_def)
qed

lemmas merge_eval = andThen_def member_def lookup_def falsy_def spreadOrEmpty_def newSet_def
  setHas_def sameValueZero_def sameJSON_def stringify_def

theorem update_without_changes_leaves_files_witness:
  "\<exists>w'. update ex_plain ex_world = (Returned, w')
      \<and> docs w' = docs ex_world \<and> stateFile w' = stateFile ex_world
      \<and> history w' = [''.context/.prelude/history/2025-06-01T12-00-00.json''
                         \<mapsto> storedState (state ex_tracked)]"
proof -
  let ?w2 = "ex_world\<lparr>wclock := tick ex_clock,
     history := [backupPath ''.context'' (now ex_clock) \<mapsto> storedState (state ex_tracked)]\<rparr>"
  have s: "ex_tracked = \<lparr>state = state ex_tracked, contextDir = ''.context''\<rparr>"
    by (simp add: ex_tracked_def)
  have h4: "newStateManager ''.context'' ex_world = (Inr ex_tracked, ex_world)"
    by (simp add: newStateManager_def ex_world_def ex_tracked_def)
  have h5: "backup ex_tracked ex_world = (Inr (), ?w2)"
    by (simp add: backup_def ex_world_def Let_def) (simp add: ex_tracked_def)
  have d: "docs ex_world (pathJoin ''.context'' ''project.json'') = Some ex_project"
    "docs ex_world (pathJoin ''.context'' ''stack.json'') = Some ex_stack_new"
    "docs ex_world (pathJoin ''.context'' ''architecture.json'') = Some ex_architecture"
    "docs ex_world (pathJoin ''.context'' ''constraints.json'') = Some ex_constraints"
    by (simp_all add: ex_world_def ex_docs_def pathJoin_def)
  have i: "inference ex_world ''project'' = Inr ex_project"
    "inference ex_world ''stack'' = Inr ex_stack_new"
    "inference ex_world ''architecture'' = Inr ex_architecture"
    "inference ex_world ''constraints'' = Inr ex_constraints"
    by (simp_all add: ex_world_def ex_inference_def)
  have mp: "mergeProject ex_tracked ex_project ex_project (wclock ?w2)
              = Inr (\<lparr>merged = JObj [(''name'', JStr ''prelude''),
                                    (''updatedAt'', JStr ''2025-06-01T12:00:00.000Z'')],
                      changes = []\<rparr>, ex_project, tick (tick ex_clock))"
    by (simp add: mergeProject_def getManualFields_def getFileState_def ex_tracked_def
        ex_project_def preserveFields_def preserveField_def inferredChange_def objectKeys_def
        now_def tick_def ex_clock_def merge_eval)
  have ms: "mergeStack ex_tracked ex_stack_new ex_stack_new
              = Inr \<lparr>merged = ex_stack_new, changes = []\<rparr>"
    by (simp add: mergeStack_def stackDeps_def ex_stack_new_def merge_eval)
  have ma: "mergeArchitecture ex_tracked ex_architecture ex_architecture
              = Inr \<lparr>merged = ex_architecture, changes = []\<rparr>"
    by (simp add: mergeArchitecture_def mergeDirectories_def dirPaths_def getManualFields_def
        getFileState_def ex_tracked_def ex_architecture_def merge_eval)
  have mc: "mergeConstraints ex_tracked ex_constraints ex_constraints
              = Inr \<lparr>merged = ex_constraints, changes = []\<rparr>"
    by (simp add: mergeConstraints_def mergePreferences_def mergeItems_def arrayFilter_def
        isManuallyEdited_def getFileState_def ex_tracked_def ex_constraints_def merge_eval)
  have e: "changes \<lparr>merged = JObj [(''name'', JStr ''prelude''),
                                    (''updatedAt'', JStr ''2025-06-01T12:00:00.000Z'')],
                      changes = []\<rparr> @ changes \<lparr>merged = ex_stack_new, changes = []\<rparr>
           @ changes \<lparr>merged = ex_architecture, changes = []\<rparr>
           @ changes \<lparr>merged = ex_constraints, changes = []\<rparr> = []"
    by simp
  have p: "backupPath ''.context'' (now (wclock ex_world))
             = ''.context/.prelude/history/2025-06-01T12-00-00.json''"
    by (simp add: backupPath_def historyDir_def pathJoin_def now_def ex_world_def ex_clock_def)
  have "dirExists ex_world" "\<not> force ex_plain" "\<not> dryRun ex_plain"
    by (simp_all add: ex_world_def ex_plain_def)
  from update_without_changes_leaves_files [OF this h4 h5 d i mp ms ma mc e]
  show ?thesis
    unfolding p by (simp add: ex_world_def)
qed











section \<open>Failures\<close>



section \<open>Properties of the watcher's updater\<close>

lemma pathJoin_inject [simp]: "pathJoin d a = pathJoin d b \<longleftrightarrow> a = b"
  by (simp add: pathJoin_def)






subsection \<open>Lists: \<^verbatim>\<open>mergeConstraints\<close> and \<^verbatim>\<open>mergeStack\<close>\<close>

lemma setHas_mem: "setHas s x \<Longrightarrow> x \<in> set s"
  by (cases x) (auto simp: setHas_def list_ex_iff sameValueZero_def)

lemma set_newSet_acc:
  "set (foldl (\<lambda>s x. if setHas s x then s else s @ [x]) acc xs) = set acc \<union> set xs"
  by (induction xs arbitrary: acc) (auto dest: setHas_mem)

lemma set_newSet [simp]: "set (newSet xs) = set xs"
  by (simp add: newSet_def set_newSet_acc)





lemma lookup_update [simp]:
  "lookup (AList.update k v kvs) k' = (if k' = k then v else lookup kvs k')"
  by (simp add: lookup_def update_conv')














subsection \<open>\<^verbatim>\<open>mergeProject\<close> with top-level field paths\<close>





lemma preserveField_obj:
  "preserveField (JObj ekvs) (JObj ikvs) f (JObj mkvs, chs) =
     (if lookup ekvs f \<noteq> JUndefined \<and> lookup ekvs f \<noteq> JNull
         \<and> \<not> sameJSON (lookup ekvs f) (lookup ikvs f)
      then Inr (JObj (AList.update f (lookup ekvs f) mkvs),
                chs @ [\<lparr>field = f, ctype = Preserved, oldValue = JUndefined,
                         newValue = lookup ekvs f, reason = ''User-maintained field''\<rparr>])
      else Inr (JObj mkvs, chs))"
  by (simp add: preserveField_def member_def)


lemma preserve_loop_team_goals:
  assumes "foldE (preserveField (JObj ekvs) (JObj ikvs)) preserveFields (JObj mkvs, chs)
             = Inr (JObj mkvs', chs')"
    and "k \<in> set preserveFields" and "\<not> sameJSON (lookup ekvs k) (lookup ikvs k)"
    and "lookup mkvs k = lookup ekvs k"
  shows "lookup mkvs' k = lookup ekvs k"
  using assms by (auto simp: preserveFields_def preserveField_obj split: if_splits)




subsection \<open>\<^verbatim>\<open>mergeArchitecture\<close>\<close>










subsection \<open>Merging a document with itself\<close>

lemma sameJSON_refl [simp]: "sameJSON v v"
  by (simp add: sameJSON_def)










subsection \<open>Manual preservation and idempotence\<close>







end
